theory Spec2Isabelle
  imports Main "HOL-Library.Char_ord" "HOL-Library.Product_Lexorder"
begin

section \<open>mdcal: markdown events to iCal and HTML\<close>

text \<open>
  A shallow embedding of \<^verbatim>\<open>mdcal.py\<close>. Python strings are HOL strings: a character is
  a code point below 256, so a document is taken to hold such characters only. Exceptions
  are values of \<open>error\<close>; a function that can raise returns \<open>error + 'a\<close>.
\<close>

subsection \<open>Python's string methods\<close>

datatype error = ValueError | IndexError | OverflowError

abbreviation newline :: char where
  "newline \<equiv> CHR 0x0A"

abbreviation backslash :: char where
  "backslash \<equiv> CHR 0x5C"

text \<open>
  \<^verbatim>\<open>str.isspace\<close> on one character, which is also the class \<^verbatim>\<open>\s\<close> of a \<^verbatim>\<open>str\<close>
  pattern: below 256 the white space characters are 9 to 13, 28 to 32, 133 and 160.
\<close>

definition isspace :: "char \<Rightarrow> bool" where
  "isspace c =
     (let n = (of_char c :: nat)
      in (9 \<le> n \<and> n \<le> 13) \<or> (28 \<le> n \<and> n \<le> 32) \<or> n = 133 \<or> n = 160)"

definition str_lstrip :: "string \<Rightarrow> string" where
  "str_lstrip s = dropWhile isspace s"

definition str_rstrip :: "string \<Rightarrow> string" where
  "str_rstrip s = rev (dropWhile isspace (rev s))"

text \<open>\<^verbatim>\<open>s.strip()\<close>\<close>

definition str_strip :: "string \<Rightarrow> string" where
  "str_strip s = str_rstrip (str_lstrip s)"

text \<open>\<^verbatim>\<open>s.lstrip('#')\<close>\<close>

definition lstrip_hash :: "string \<Rightarrow> string" where
  "lstrip_hash s = dropWhile (\<lambda>c. c = CHR ''#'') s"

text \<open>\<^verbatim>\<open>s.startswith(p)\<close>\<close>

definition str_startswith :: "string \<Rightarrow> string \<Rightarrow> bool" where
  "str_startswith s p = (take (length p) s = p)"

text \<open>\<^verbatim>\<open>s.split(c)\<close> for a separator of one character: every occurrence splits.\<close>

fun str_split :: "char \<Rightarrow> string \<Rightarrow> string list" where
  "str_split c [] = [[]]"
| "str_split c (x # xs) =
     (if x = c then [] # str_split c xs
      else (case str_split c xs of
              [] \<Rightarrow> [[x]]
            | w # ws \<Rightarrow> (x # w) # ws))"

text \<open>\<^verbatim>\<open>s.replace(c, new)\<close> for an \<^verbatim>\<open>old\<close> of one character.\<close>

definition str_replace :: "char \<Rightarrow> string \<Rightarrow> string \<Rightarrow> string" where
  "str_replace c new s = concat (map (\<lambda>x. if x = c then new else [x]) s)"

text \<open>\<^verbatim>\<open>sep.join(xs)\<close>\<close>

fun str_join :: "string \<Rightarrow> string list \<Rightarrow> string" where
  "str_join sep [] = []"
| "str_join sep [x] = x"
| "str_join sep (x # y # ys) = x @ sep @ str_join sep (y # ys)"

subsection \<open>Dates\<close>

text \<open>
  A \<^verbatim>\<open>datetime\<close> of this program always has the time 00:00:00, so it is its calendar
  date. Python compares two of them as the tuples (year, month, day).
\<close>

record date =
  year :: nat
  month :: nat
  day :: nat

definition date_key :: "date \<Rightarrow> nat \<times> nat \<times> nat" where
  "date_key d = (year d, month d, day d)"

definition is_leap :: "nat \<Rightarrow> bool" where
  "is_leap y = (y mod 4 = 0 \<and> (y mod 100 \<noteq> 0 \<or> y mod 400 = 0))"

definition days_in_month :: "nat \<Rightarrow> nat \<Rightarrow> nat" where
  "days_in_month y m =
     (if m = 2 then (if is_leap y then 29 else 28)
      else if m = 4 \<or> m = 6 \<or> m = 9 \<or> m = 11 then 30
      else 31)"

text \<open>The check of the \<^verbatim>\<open>date\<close> constructor: years 1 to 9999, a day of the month.\<close>

definition valid_date :: "date \<Rightarrow> bool" where
  "valid_date d =
     (1 \<le> year d \<and> year d \<le> 9999 \<and> 1 \<le> month d \<and> month d \<le> 12 \<and>
      1 \<le> day d \<and> day d \<le> days_in_month (year d) (month d))"

text \<open>
  \<^verbatim>\<open>d + timedelta(days=1)\<close>: the next calendar day; past 9999-12-31 Python raises
  \<^verbatim>\<open>OverflowError\<close>.
\<close>

definition add_one_day :: "date \<Rightarrow> error + date" where
  "add_one_day d =
     (if day d < days_in_month (year d) (month d) then Inr (d\<lparr>day := day d + 1\<rparr>)
      else if month d < 12 then Inr (d\<lparr>month := month d + 1, day := 1\<rparr>)
      else if year d < 9999 then Inr \<lparr>year = year d + 1, month = 1, day = 1\<rparr>
      else Inl OverflowError)"

subsection \<open>strptime with the format \<^verbatim>\<open>%d.%m.%Y\<close>\<close>

definition is_digit :: "char \<Rightarrow> bool" where
  "is_digit c = (CHR ''0'' \<le> c \<and> c \<le> CHR ''9'')"

definition digit_val :: "char \<Rightarrow> nat" where
  "digit_val c = of_char c - 48"

text \<open>\<^verbatim>\<open>int(s)\<close> on a string of digits, a leading blank skipped.\<close>

definition int_of :: "string \<Rightarrow> nat" where
  "int_of s = foldl (\<lambda>n c. 10 * n + digit_val c) 0 (dropWhile isspace s)"

text \<open>
  The library turns the format into the regular expression
  \<^verbatim>\<open>(?P<d>3[0-1]|[1-2]\d|0[1-9]|[1-9]| [1-9])\.(?P<m>1[0-2]|0[1-9]|[1-9])\.(?P<Y>\d\d\d\d)\<close>
  and matches it at the start of the string. Each group is modelled by the list of its
  ways to match a prefix of the input, in the order of the alternatives: the group's text
  and the rest of the input. The expression matches the way the first combination that
  succeeds does, as backtracking finds it.
\<close>

definition alt2 :: "(char \<Rightarrow> bool) \<Rightarrow> (char \<Rightarrow> bool) \<Rightarrow> string \<Rightarrow> (string \<times> string) list" where
  "alt2 p q s =
     (case s of
        a # b # r \<Rightarrow> if p a \<and> q b then [([a, b], r)] else []
      | _ \<Rightarrow> [])"

definition alt1 :: "(char \<Rightarrow> bool) \<Rightarrow> string \<Rightarrow> (string \<times> string) list" where
  "alt1 p s =
     (case s of
        a # r \<Rightarrow> if p a then [([a], r)] else []
      | _ \<Rightarrow> [])"

definition is_nonzero_digit :: "char \<Rightarrow> bool" where
  "is_nonzero_digit c = (CHR ''1'' \<le> c \<and> c \<le> CHR ''9'')"

definition group_d :: "string \<Rightarrow> (string \<times> string) list" where
  "group_d s =
     alt2 (\<lambda>c. c = CHR ''3'') (\<lambda>c. CHR ''0'' \<le> c \<and> c \<le> CHR ''1'') s @
     alt2 (\<lambda>c. CHR ''1'' \<le> c \<and> c \<le> CHR ''2'') is_digit s @
     alt2 (\<lambda>c. c = CHR ''0'') is_nonzero_digit s @
     alt1 is_nonzero_digit s @
     alt2 (\<lambda>c. c = CHR '' '') is_nonzero_digit s"

definition group_m :: "string \<Rightarrow> (string \<times> string) list" where
  "group_m s =
     alt2 (\<lambda>c. c = CHR ''1'') (\<lambda>c. CHR ''0'' \<le> c \<and> c \<le> CHR ''2'') s @
     alt2 (\<lambda>c. c = CHR ''0'') is_nonzero_digit s @
     alt1 is_nonzero_digit s"

definition group_Y :: "string \<Rightarrow> (string \<times> string) list" where
  "group_Y s =
     (case s of
        a # b # c # d # r \<Rightarrow>
          if is_digit a \<and> is_digit b \<and> is_digit c \<and> is_digit d then [([a, b, c, d], r)] else []
      | _ \<Rightarrow> [])"

definition dot :: "string \<Rightarrow> string list" where
  "dot s = (case s of c # r \<Rightarrow> if c = CHR ''.'' then [r] else [] | _ \<Rightarrow> [])"

text \<open>All matches of the expression at the start of \<open>s\<close>: the three groups and the rest.\<close>

definition format_regex_match :: "string \<Rightarrow> (string \<times> string \<times> string \<times> string) list" where
  "format_regex_match s =
     concat (map (\<lambda>(d, r1).
       concat (map (\<lambda>r2.
         concat (map (\<lambda>(m, r3).
           concat (map (\<lambda>r4.
             map (\<lambda>(y, r5). (d, m, y, r5)) (group_Y r4))
           (dot r3)))
         (group_m r2)))
       (dot r1)))
     (group_d s))"

text \<open>
  \<^verbatim>\<open>datetime.strptime(s, '%d.%m.%Y')\<close>: no match, text left after the match, and a day
  the calendar does not have are each a \<^verbatim>\<open>ValueError\<close>.
\<close>

definition strptime :: "string \<Rightarrow> error + date" where
  "strptime s =
     (case format_regex_match s of
        [] \<Rightarrow> Inl ValueError
      | (d, m, y, rest) # _ \<Rightarrow>
          if rest \<noteq> [] then Inl ValueError
          else (let dt = \<lparr>year = int_of y, month = int_of m, day = int_of d\<rparr>
                in if valid_date dt then Inr dt else Inl ValueError))"

subsection \<open>The Date Resolver\<close>

definition parse_date :: "string \<Rightarrow> error + (date \<times> date option)" where
  "parse_date date_str0 =
     (let date_str = str_strip date_str0 in
      if CHR ''-'' \<in> set date_str then
        (case str_split (CHR ''-'') date_str of
           p0 # p1 # _ \<Rightarrow>
             (case strptime (str_strip p0) of
                Inl e \<Rightarrow> Inl e
              | Inr start_date \<Rightarrow>
                  (case strptime (str_strip p1) of
                     Inl e \<Rightarrow> Inl e
                   | Inr end_date \<Rightarrow> Inr (start_date, Some end_date)))
         | _ \<Rightarrow> Inl IndexError)
      else
        (case strptime date_str of
           Inl e \<Rightarrow> Inl e
         | Inr d \<Rightarrow> Inr (d, None)))"

subsection \<open>Headings and tags\<close>

record event =
  title :: string
  start_date :: date
  end_date :: "date option"
  description :: string
  link :: string
  tags :: "string list"

text \<open>
  \<^verbatim>\<open>re.match(r'^#+\s', stripped)\<close>: a hash, then every further hash, then a white space
  character. Giving back a hash cannot help the match, since a hash is no white space.
\<close>

definition is_heading :: "string \<Rightarrow> bool" where
  "is_heading line =
     (case str_strip line of
        [] \<Rightarrow> False
      | c # cs \<Rightarrow>
          c = CHR ''#'' \<and>
          (case lstrip_hash cs of [] \<Rightarrow> False | d # _ \<Rightarrow> isspace d))"

text \<open>The class \<^verbatim>\<open>[a-zA-Z0-9_-]\<close>.\<close>

definition is_tag_char :: "char \<Rightarrow> bool" where
  "is_tag_char c =
     ((CHR ''a'' \<le> c \<and> c \<le> CHR ''z'') \<or> (CHR ''A'' \<le> c \<and> c \<le> CHR ''Z'') \<or>
      (CHR ''0'' \<le> c \<and> c \<le> CHR ''9'') \<or> c = CHR ''_'' \<or> c = CHR ''-'')"

text \<open>\<^verbatim>\<open>re.match(r'^#[a-zA-Z0-9_-]', line)\<close>\<close>

definition is_tag_line :: "string \<Rightarrow> bool" where
  "is_tag_line line =
     (case line of
        c # d # _ \<Rightarrow> c = CHR ''#'' \<and> is_tag_char d
      | _ \<Rightarrow> False)"

text \<open>
  \<^verbatim>\<open>re.findall(r'#([a-zA-Z0-9_-]+)', line)\<close>: scanning from the left, a hash followed by
  a run of tag characters yields the whole run, and the scan goes on behind it; at any
  other place it moves one character on.
\<close>

function parse_tags :: "string \<Rightarrow> string list" where
  "parse_tags [] = []"
| "parse_tags (c # cs) =
     (if c = CHR ''#'' \<and> takeWhile is_tag_char cs \<noteq> []
      then takeWhile is_tag_char cs # parse_tags (dropWhile is_tag_char cs)
      else parse_tags cs)"
  by pat_completeness auto
termination
  by (relation "measure length") (auto simp: length_dropWhile_le less_Suc_eq_le)

subsection \<open>The Event Extractor\<close>

text \<open>The two inner loops of \<^verbatim>\<open>parse_markdown\<close>, each moving the cursor \<open>i\<close>.\<close>

function skip_blank :: "string list \<Rightarrow> nat \<Rightarrow> nat" where
  "skip_blank lines i =
     (if i < length lines \<and> str_strip (lines ! i) = [] then skip_blank lines (Suc i) else i)"
  by pat_completeness auto
termination
  by (relation "measure (\<lambda>(lines, i). length lines - i)") auto

declare skip_blank.simps [simp del]

function collect :: "string list \<Rightarrow> nat \<Rightarrow> string list \<Rightarrow> nat \<times> string list" where
  "collect lines i content_lines =
     (if i < length lines \<and> \<not> is_heading (lines ! i)
      then collect lines (Suc i) (content_lines @ [str_strip (lines ! i)])
      else (i, content_lines))"
  by pat_completeness auto
termination
  by (relation "measure (\<lambda>(lines, i, content_lines). length lines - i)") auto

declare collect.simps [simp del]

text \<open>
  The \<^verbatim>\<open>for\<close> loop that separates tags, description and link: \<open>classify\<close> is its
  body, on the three variables it assigns to.
\<close>

definition classify :: "string \<Rightarrow> string list \<times> string \<times> string \<Rightarrow> string list \<times> string \<times> string" where
  "classify content_line =
     (\<lambda>(tags, description, link).
        if str_startswith content_line ''http://'' \<or> str_startswith content_line ''https://''
        then (tags, description, content_line)
        else if content_line \<noteq> [] \<and> is_tag_line content_line
        then (tags @ parse_tags content_line, description, link)
        else if content_line \<noteq> []
        then (tags,
              (if description \<noteq> [] then description @ [newline] else description) @ content_line,
              link)
        else (tags, description, link))"

definition separate :: "string list \<Rightarrow> string list \<times> string \<times> string" where
  "separate content_lines =
     foldl (\<lambda>st content_line. classify content_line st) ([], [], []) content_lines"

text \<open>
  One pass through the body of the outer \<^verbatim>\<open>while\<close> loop, entered with \<open>i < length lines\<close>:
  it raises, leaves the loop (\<^verbatim>\<open>break\<close>), or hands the next cursor and the events on.
\<close>

datatype step = Break | Next nat "event list"

definition loop_body :: "string list \<Rightarrow> nat \<Rightarrow> event list \<Rightarrow> error + step" where
  "loop_body lines i events =
     (let line = str_strip (lines ! i) in
      if is_heading line then
        (let title = str_strip (lstrip_hash line);
             j = skip_blank lines (Suc i)
         in if j \<ge> length lines then Inr Break
            else
              (case parse_date (str_strip (lines ! j)) of
                 Inl e \<Rightarrow> Inl e
               | Inr dates \<Rightarrow>
                   (let (start_date, end_date) = dates;
                        (k, content_lines) = collect lines (Suc j) [];
                        (tags, description, link) = separate content_lines
                    in Inr (Next k
                         (events @
                           [\<lparr>title = title, start_date = start_date, end_date = end_date,
                             description = str_strip description, link = link,
                             tags = tags\<rparr>])))))
      else Inr (Next (Suc i) events))"

function parse_loop :: "string list \<Rightarrow> nat \<Rightarrow> event list \<Rightarrow> error + event list" where
  "parse_loop lines i events =
     (if i < length lines then
        (case loop_body lines i events of
           Inl e \<Rightarrow> Inl e
         | Inr Break \<Rightarrow> Inr events
         | Inr (Next i' events') \<Rightarrow> parse_loop lines i' events')
      else Inr events)"
  by pat_completeness auto
termination
proof (relation "measure (\<lambda>(lines, i, events). length lines - i)")
  show "wf (measure (\<lambda>(lines, i, events). length lines - i))"
    by simp
next
  fix lines :: "string list" and i :: nat and events :: "event list"
    and st :: step and i' :: nat and events' :: "event list"
  assume less: "i < length lines"
    and body: "loop_body lines i events = Inr st"
    and st: "st = Next i' events'"
  have skip: "n \<le> skip_blank ls n" for ls n
  proof (induction ls n rule: skip_blank.induct)
    case (1 ls n)
    show ?case
    proof (cases "n < length ls \<and> str_strip (ls ! n) = []")
      case True
      with "1.IH" have "Suc n \<le> skip_blank ls (Suc n)"
        by simp
      with True show ?thesis
        by (simp add: skip_blank.simps [of ls n])
    next
      case False
      then show ?thesis
        by (auto simp: skip_blank.simps [of ls n])
    qed
  qed
  have coll: "n \<le> fst (collect ls n acc)" for ls n acc
  proof (induction ls n acc rule: collect.induct)
    case (1 ls n acc)
    show ?case
    proof (cases "n < length ls \<and> \<not> is_heading (ls ! n)")
      case True
      with "1.IH" have "Suc n \<le> fst (collect ls (Suc n) (acc @ [str_strip (ls ! n)]))"
        by simp
      with True show ?thesis
        by (simp add: collect.simps [of ls n acc])
    next
      case False
      then show ?thesis
        by (auto simp: collect.simps [of ls n acc])
    qed
  qed
  have "i < i'"
  proof (cases "is_heading (str_strip (lines ! i))")
    case False
    with body st show ?thesis
      by (simp add: loop_body_def)
  next
    case True
    let ?j = "skip_blank lines (Suc i)"
    have "Suc ?j \<le> fst (collect lines (Suc ?j) [])"
      by (rule coll)
    moreover have "Suc i \<le> ?j"
      by (rule skip)
    moreover have "i' = fst (collect lines (Suc ?j) [])"
      using True body st
      by (simp add: loop_body_def Let_def split: if_splits sum.splits prod.splits)
    ultimately show ?thesis
      by simp
  qed
  with less show "((lines, i', events'), (lines, i, events))
      \<in> measure (\<lambda>(lines, i, events). length lines - i)"
    by simp
qed

declare parse_loop.simps [simp del]

text \<open>\<^verbatim>\<open>parse_markdown\<close> on the text of the file.\<close>

definition parse_markdown :: "string \<Rightarrow> error + event list" where
  "parse_markdown content = parse_loop (str_split newline content) 0 []"

subsection \<open>The iCal Renderer\<close>

definition digit_char :: "nat \<Rightarrow> char" where
  "digit_char n = char_of (48 + n)"

text \<open>The last \<open>w\<close> decimal digits of \<open>n\<close>, zeros in front.\<close>

fun zero_pad :: "nat \<Rightarrow> nat \<Rightarrow> string" where
  "zero_pad 0 n = []"
| "zero_pad (Suc w) n = zero_pad w (n div 10) @ [digit_char (n mod 10)]"

text \<open>
  The decimal numeral of \<open>n\<close>, without leading zeros: how the C library of this platform
  prints the year for \<^verbatim>\<open>%Y\<close> (the year 999 as \<^verbatim>\<open>999\<close>, not \<^verbatim>\<open>0999\<close>).
\<close>

fun decimal :: "nat \<Rightarrow> string" where
  "decimal n = (if n < 10 then [digit_char n] else decimal (n div 10) @ [digit_char (n mod 10)])"

declare decimal.simps [simp del]

text \<open>\<^verbatim>\<open>d.strftime('%Y%m%d')\<close>: day and month in two digits, the year as above.\<close>

definition strftime_Ymd :: "date \<Rightarrow> string" where
  "strftime_Ymd d = decimal (year d) @ zero_pad 2 (month d) @ zero_pad 2 (day d)"

text \<open>\<^verbatim>\<open>d.strftime('%d.%m.%Y')\<close>\<close>

definition strftime_dmY :: "date \<Rightarrow> string" where
  "strftime_dmY d = zero_pad 2 (day d) @ ''.'' @ zero_pad 2 (month d) @ ''.'' @ decimal (year d)"

definition escape_ical_text :: "string \<Rightarrow> string" where
  "escape_ical_text text =
     (let text1 = str_replace backslash [backslash, backslash] text;
          text2 = str_replace (CHR '','') [backslash, CHR '',''] text1;
          text3 = str_replace (CHR '';'') [backslash, CHR '';''] text2;
          text4 = str_replace newline [backslash, CHR ''n''] text3
      in text4)"

text \<open>
  The lines of one \<^verbatim>\<open>VEVENT\<close>, the body of the loop over the sorted events. \<open>now\<close> is
  the time stamp \<^verbatim>\<open>datetime.now(timezone.utc)\<close> gives at this event, already formatted.
\<close>

definition vevent :: "string \<Rightarrow> event \<Rightarrow> error + string list" where
  "vevent now event =
     (let uid = strftime_Ymd (start_date event) @ ''-'' @
                str_replace (CHR '' '') ''-'' (title event) @ ''@mdcal'';
          lines1 = [''BEGIN:VEVENT'', ''UID:'' @ uid];
          dates =
            (case end_date event of
               Some e \<Rightarrow>
                 (case add_one_day e of
                    Inl err \<Rightarrow> Inl err
                  | Inr end_date_ical \<Rightarrow>
                      Inr [''DTSTART;VALUE=DATE:'' @ strftime_Ymd (start_date event),
                           ''DTEND;VALUE=DATE:'' @ strftime_Ymd end_date_ical])
             | None \<Rightarrow>
                 (case add_one_day (start_date event) of
                    Inl err \<Rightarrow> Inl err
                  | Inr end_date_ical \<Rightarrow>
                      Inr [''DTSTART;VALUE=DATE:'' @ strftime_Ymd (start_date event),
                           ''DTEND;VALUE=DATE:'' @ strftime_Ymd end_date_ical]));
          summary = [''SUMMARY:'' @ escape_ical_text (title event)];
          categories =
            (if tags event \<noteq> []
             then [''CATEGORIES:'' @ str_join '','' (map escape_ical_text (tags event))]
             else []);
          description_parts =
            (if description event \<noteq> [] then [description event] else []) @
            (if link event \<noteq> [] then [''Link: '' @ link event] else []);
          description_lines =
            (if description_parts \<noteq> []
             then [''DESCRIPTION:'' @
                   escape_ical_text (str_join [backslash, CHR ''n''] description_parts)]
             else []);
          url = (if link event \<noteq> [] then [''URL:'' @ link event] else [])
      in case dates of
           Inl err \<Rightarrow> Inl err
         | Inr date_lines \<Rightarrow>
             Inr (lines1 @ date_lines @ summary @ categories @ description_lines @ url @
                  [''DTSTAMP:'' @ now, ''END:VEVENT'']))"

text \<open>The loop over the events: \<open>clock n\<close> is the time stamp of the \<open>n\<close>-th pass.\<close>

fun vevents :: "(nat \<Rightarrow> string) \<Rightarrow> nat \<Rightarrow> event list \<Rightarrow> error + string list" where
  "vevents clock n [] = Inr []"
| "vevents clock n (event # rest) =
     (case vevent (clock n) event of
        Inl err \<Rightarrow> Inl err
      | Inr ls \<Rightarrow>
          (case vevents clock (Suc n) rest of
             Inl err \<Rightarrow> Inl err
           | Inr others \<Rightarrow> Inr (ls @ others)))"

text \<open>\<^verbatim>\<open>sorted(events, key=lambda e: e.start_date)\<close>: Python's sort is stable.\<close>

definition sorted_events :: "event list \<Rightarrow> event list" where
  "sorted_events events = sort_key (\<lambda>e. date_key (start_date e)) events"

text \<open>\<^verbatim>\<open>generate_ical\<close>: the text written to the output file.\<close>

definition generate_ical :: "(nat \<Rightarrow> string) \<Rightarrow> event list \<Rightarrow> error + string" where
  "generate_ical clock events =
     (case vevents clock 0 (sorted_events events) of
        Inl err \<Rightarrow> Inl err
      | Inr body \<Rightarrow>
          Inr (str_join [newline]
                ([''BEGIN:VCALENDAR'', ''VERSION:2.0'', ''PRODID:-//mdcal//mdcal//EN'',
                  ''CALSCALE:GREGORIAN'', ''METHOD:PUBLISH''] @ body @ [''END:VCALENDAR''])))"

section \<open>Reference definitions and example data\<close>

text \<open>What the four replacements do to one character of the input.\<close>

definition escape_char :: "char \<Rightarrow> string" where
  "escape_char c =
     (if c = backslash then [backslash, backslash]
      else if c = CHR '','' then [backslash, CHR '','']
      else if c = CHR '';'' then [backslash, CHR '';'']
      else if c = newline then [backslash, CHR ''n'']
      else [c])"

definition scenario_d :: event where
  "scenario_d =
     \<lparr>title = ''A, B; C'', start_date = \<lparr>year = 2024, month = 3, day = 1\<rparr>, end_date = None,
      description = ''x,y'', link = [], tags = [''a'', ''b'']\<rparr>"

definition scenario_b :: event where
  "scenario_b =
     \<lparr>title = ''Fair'', start_date = \<lparr>year = 2024, month = 3, day = 1\<rparr>,
      end_date = Some \<lparr>year = 2024, month = 3, day = 3\<rparr>,
      description = [], link = [], tags = []\<rparr>"

text \<open>The date the renderer adds a day to: the end date when there is one, else the start.\<close>

definition ical_end_base :: "event \<Rightarrow> date" where
  "ical_end_base event = (case end_date event of Some e \<Rightarrow> e | None \<Rightarrow> start_date event)"

section \<open>Properties\<close>

subsection \<open>Escaping\<close>

lemma str_replace_Nil: "str_replace c new [] = []"
  by (simp add: str_replace_def)

lemma str_replace_Cons:
  "str_replace c new (x # xs) = (if x = c then new else [x]) @ str_replace c new xs"
  by (simp add: str_replace_def)

lemma str_replace_append:
  "str_replace c new (xs @ ys) = str_replace c new xs @ str_replace c new ys"
  by (simp add: str_replace_def)

lemma escape_ical_text_Nil: "escape_ical_text [] = []"
  by (simp add: escape_ical_text_def str_replace_Nil)

lemma escape_ical_text_Cons: "escape_ical_text (c # cs) = escape_char c @ escape_ical_text cs"
  by (simp add: escape_ical_text_def escape_char_def str_replace_Cons str_replace_append
      str_replace_Nil)

lemma escape_ical_text_chars: "escape_ical_text s = concat (map escape_char s)"
  by (induction s) (simp_all add: escape_ical_text_Nil escape_ical_text_Cons)

lemma scenario_d_vevent:
  "vevent ''20240301T120000Z'' scenario_d =
     Inr [''BEGIN:VEVENT'', ''UID:20240301-A,-B;-C@mdcal'', ''DTSTART;VALUE=DATE:20240301'',
          ''DTEND;VALUE=DATE:20240302'', ''SUMMARY:A'' @ [backslash] @ '', B'' @ [backslash] @ ''; C'',
          ''CATEGORIES:a,b'', ''DESCRIPTION:x'' @ [backslash] @ '',y'',
          ''DTSTAMP:20240301T120000Z'', ''END:VEVENT'']"
  by code_simp

text \<open>
  Claim C7. \<open>escape_ical_text\<close> is the four replacements in the order backslash, comma,
  semicolon, newline, and so escapes every character of its input once (a backslash that
  a later replacement writes is not doubled). A rendered event has the line \<open>SUMMARY:\<close>
  with the escaped title, the line \<open>CATEGORIES:\<close> with the escaped tags when there are
  tags, and a line \<open>DESCRIPTION:\<close> with an escaped text when there is a description or a
  link.
\<close>

theorem escape_ical_text_replacements:
  "escape_ical_text text =
     str_replace newline [backslash, CHR ''n'']
       (str_replace (CHR '';'') [backslash, CHR '';'']
         (str_replace (CHR '','') [backslash, CHR '','']
           (str_replace backslash [backslash, backslash] text))) \<and>
   escape_ical_text text = concat (map escape_char text) \<and>
   (\<forall>ls. vevent now event = Inr ls \<longrightarrow>
      ''SUMMARY:'' @ escape_ical_text (title event) \<in> set ls \<and>
      (tags event \<noteq> [] \<longrightarrow>
         ''CATEGORIES:'' @ str_join '','' (map escape_ical_text (tags event)) \<in> set ls) \<and>
      (description event \<noteq> [] \<or> link event \<noteq> [] \<longrightarrow>
         (\<exists>d. ''DESCRIPTION:'' @ escape_ical_text d \<in> set ls)))"
proof (intro conjI allI impI)
  show "escape_ical_text text =
     str_replace newline [backslash, CHR ''n'']
       (str_replace (CHR '';'') [backslash, CHR '';'']
         (str_replace (CHR '','') [backslash, CHR '','']
           (str_replace backslash [backslash, backslash] text)))"
    by (simp add: escape_ical_text_def)
  show "escape_ical_text text = concat (map escape_char text)"
    by (rule escape_ical_text_chars)
next
  fix ls
  assume "vevent now event = Inr ls"
  then show "''SUMMARY:'' @ escape_ical_text (title event) \<in> set ls"
    by (auto simp: vevent_def Let_def split: sum.splits option.splits)
next
  fix ls
  assume "vevent now event = Inr ls" and "tags event \<noteq> []"
  then show "''CATEGORIES:'' @ str_join '','' (map escape_ical_text (tags event)) \<in> set ls"
    by (auto simp: vevent_def Let_def split: sum.splits option.splits)
next
  fix ls
  assume "vevent now event = Inr ls" and "description event \<noteq> [] \<or> link event \<noteq> []"
  then show "\<exists>d. ''DESCRIPTION:'' @ escape_ical_text d \<in> set ls"
    by (auto simp: vevent_def Let_def split: sum.splits option.splits)
qed

theorem escape_ical_text_replacements_witness:
  "escape_ical_text ''A, B; C'' = ''A'' @ [backslash] @ '', B'' @ [backslash] @ ''; C'' \<and>
   ''SUMMARY:A'' @ [backslash] @ '', B'' @ [backslash] @ ''; C''
     \<in> set (projr (vevent ''20240301T120000Z'' scenario_d)) \<and>
   ''CATEGORIES:a,b'' \<in> set (projr (vevent ''20240301T120000Z'' scenario_d))"
proof -
  let ?r = "projr (vevent ''20240301T120000Z'' scenario_d)"
  have v: "vevent ''20240301T120000Z'' scenario_d = Inr ?r"
    by (simp add: scenario_d_vevent)
  have t: "title scenario_d = ''A, B; C''" and g: "tags scenario_d = [''a'', ''b'']"
    by (simp_all add: scenario_d_def)
  have e: "escape_ical_text ''A, B; C'' = ''A'' @ [backslash] @ '', B'' @ [backslash] @ ''; C''"
    by (simp add: escape_ical_text_chars escape_char_def)
  have c: "str_join '','' (map escape_ical_text [''a'', ''b'']) = ''a,b''"
    by (simp add: escape_ical_text_chars escape_char_def)
  from escape_ical_text_replacements [of "''A, B; C''" "''20240301T120000Z''" scenario_d] v
  have "''SUMMARY:'' @ escape_ical_text (title scenario_d) \<in> set ?r \<and>
    (tags scenario_d \<noteq> [] \<longrightarrow>
       ''CATEGORIES:'' @ str_join '','' (map escape_ical_text (tags scenario_d)) \<in> set ?r)"
    by blast
  then show ?thesis
    unfolding t g e c by simp
qed

end
